theory Spec2Isabelle
  imports Main "HOL-Library.Sublist"
begin

section \<open>The query syntax tree of sqlast and its renderer\<close>

text \<open>
  The theory embeds \<^verbatim>\<open>src/sqlast/query.go\<close>: the node types of a SQL query and the
  \<^verbatim>\<open>Eval\<close> method of each, which turns a tree back into SQL text.

  Conventions of the embedding.
  \<^item> A Go \<^verbatim>\<open>string\<close> is a \<^typ>\<open>string\<close>; \<^verbatim>\<open>fmt.Sprintf\<close> with \<^verbatim>\<open>%s\<close> verbs and
    \<^verbatim>\<open>+=\<close> are list append.
  \<^item> \<^verbatim>\<open>ASTNode\<close> is declared outside \<^verbatim>\<open>query.go\<close>; the renderer only ever calls
    \<^verbatim>\<open>Eval()\<close> on such a node. The node type is the type parameter \<open>'n\<close> and
    its \<^verbatim>\<open>Eval\<close> is the parameter \<open>ne :: 'n \<Rightarrow> string\<close> of every function below.
  \<^item> A field that the source tests against \<^verbatim>\<open>nil\<close> before use (\<^verbatim>\<open>Relation\<close>,
    \<^verbatim>\<open>Selection\<close>, \<^verbatim>\<open>Having\<close>, \<^verbatim>\<open>Limit\<close>, \<^verbatim>\<open>Alias\<close> of a table factor,
    \<^verbatim>\<open>ASC\<close>) is an \<open>option\<close>.
  \<^item> \<^verbatim>\<open>Join.Constant\<close> is an \<open>option\<close> as well: a join built without a
    constraint holds the nil interface there, \<^verbatim>\<open>Join.Eval\<close> never tests it, and
    calling \<^verbatim>\<open>Prefix()\<close> or \<^verbatim>\<open>Suffix()\<close> on it is a nil dereference, a run-time
    panic. A panic is the result \<open>None\<close>; every \<^verbatim>\<open>Eval\<close> that can reach a join
    returns a \<open>string option\<close> and passes \<open>None\<close> on.
  \<^item> The other pointer and interface fields (\<^verbatim>\<open>Body\<close>, \<^verbatim>\<open>Left\<close>, \<^verbatim>\<open>Right\<close>,
    \<^verbatim>\<open>Select\<close>, \<^verbatim>\<open>Query\<close>, \<^verbatim>\<open>Name\<close>, \<^verbatim>\<open>Expr\<close>, \<^verbatim>\<open>Node\<close>, the relation of a
    join, the elements of the slices) are always present: the types below have
    no nil for them. A slice is a list; \<^verbatim>\<open>len(xs) != 0\<close> does not tell a nil
    slice from an empty one.
  \<^item> The interfaces \<^verbatim>\<open>SQLSetExpr\<close>, \<^verbatim>\<open>SQLSetOperator\<close>, \<^verbatim>\<open>TableFactor\<close>,
    \<^verbatim>\<open>SQLSelectItem\<close> and \<^verbatim>\<open>JoinConstant\<close> are datatypes with one constructor
    for each implementation in \<^verbatim>\<open>query.go\<close>. A \<^verbatim>\<open>*SQLSelect\<close> put directly
    where a \<^verbatim>\<open>SQLSetExpr\<close> is expected renders as the \<open>SelectExpr\<close> of it,
    whose \<^verbatim>\<open>Eval\<close> only forwards.
\<close>

subsection \<open>Library and helpers used by the source\<close>

text \<open>
  Go's \<^verbatim>\<open>strings.Join(elems, sep)\<close>: the empty string for no element, the element
  itself for one, otherwise the elements with \<open>sep\<close> between each two.
\<close>

fun strings_Join :: "string list \<Rightarrow> string \<Rightarrow> string" where
  "strings_Join [] sep = ''''"
| "strings_Join [e] sep = e"
| "strings_Join (e # es) sep = e @ sep @ strings_Join es sep"

text \<open>
  Modelled from the spec: \<^verbatim>\<open>commaSeparatedString\<close> is called by \<^verbatim>\<open>query.go\<close> but
  defined in another file of the package. The specification has every list it
  renders "comma-space-joined" (sections 4.3, 4.5 and 4.7: "commas are followed
  by a single space"), and the expected strings of \<^verbatim>\<open>query_test.go\<close> agree
  (\<^verbatim>\<open>GROUP BY region, product\<close>). The argument here is the list of the elements'
  \<^verbatim>\<open>Eval()\<close> results, in order.
\<close>

definition commaSeparatedString :: "string list \<Rightarrow> string" where
  "commaSeparatedString strs = strings_Join strs '', ''"

text \<open>
  Modelled from the spec: \<^verbatim>\<open>SQLIdent\<close> is declared outside \<^verbatim>\<open>query.go\<close>. The source
  converts it with \<^verbatim>\<open>string(*i)\<close>, so it is a string type; by section 4.1 its
  \<^verbatim>\<open>Eval\<close> "returns the identifier's name verbatim".
\<close>

type_synonym SQLIdent = string

definition SQLIdent_Eval :: "SQLIdent \<Rightarrow> string" where
  "SQLIdent_Eval i = i"

text \<open>
  Modelled from the spec: \<^verbatim>\<open>SQLObjectName\<close> is declared outside \<^verbatim>\<open>query.go\<close>. By
  sections 3 and 4.1 it is an ordered sequence of identifiers and its \<^verbatim>\<open>Eval\<close>
  "returns its identifier segments joined by \<^verbatim>\<open>.\<close>".
\<close>

datatype SQLObjectName = SQLObjectName (Idents: "SQLIdent list")

definition SQLObjectName_Eval :: "SQLObjectName \<Rightarrow> string" where
  "SQLObjectName_Eval n = strings_Join (map SQLIdent_Eval (Idents n)) ''.''"

subsection \<open>Node types\<close>

text \<open>
  \<^verbatim>\<open>type JoinOperator int\<close> with the constants numbered by \<^verbatim>\<open>iota\<close>. The field can
  hold any integer, not only the six named ones; no arithmetic is done on it.
\<close>

type_synonym JoinOperator = int

definition Inner :: JoinOperator where "Inner = 0"
definition LeftOuter :: JoinOperator where "LeftOuter = 1"
definition RightOuter :: JoinOperator where "RightOuter = 2"
definition FullOuter :: JoinOperator where "FullOuter = 3"
definition Implicit :: JoinOperator where "Implicit = 4"
definition Cross :: JoinOperator where "Cross = 5"

datatype SQLSetOperator = UnionOperator | ExceptOperator | IntersectOperator

datatype 'n SQLSelectItem =
    UnnamedExpression 'n
  | ExpressionWithAlias 'n SQLIdent
  | QualifiedWildcard SQLObjectName
  | Wildcard

datatype 'n JoinConstant =
    OnJoinConstant 'n
  | UsingConstant "SQLIdent list"
  | NaturalConstant

datatype 'n SQLOrderByExpr = SQLOrderByExpr 'n "bool option"

text \<open>
  The structs that refer to each other. Field order is the source's:
  \<^verbatim>\<open>SQLQuery{CTEs, Body, OrderBy, Limit}\<close>, \<^verbatim>\<open>CTE{Alias, Query}\<close>,
  \<^verbatim>\<open>SetOperationExpr{Op, All, Left, Right}\<close>,
  \<^verbatim>\<open>SQLSelect{Distinct, Projection, Relation, Joins, Selection, GroupBy, Having}\<close>,
  \<^verbatim>\<open>Table{Name, Alias, Args, WithHints}\<close>, \<^verbatim>\<open>Derived{SubQuery, Alias}\<close>,
  \<^verbatim>\<open>Join{Relation, Op, Constant}\<close>.
\<close>

datatype 'n SQLQuery =
    SQLQuery "'n CTE list" "'n SQLSetExpr" "'n SQLOrderByExpr list" "'n option"
and 'n CTE =
    CTE SQLIdent "'n SQLQuery"
and 'n SQLSetExpr =
    SelectExpr "'n SQLSelect"
  | QueryExpr "'n SQLQuery"
  | SetOperationExpr SQLSetOperator bool "'n SQLSetExpr" "'n SQLSetExpr"
and 'n SQLSelect =
    SQLSelect bool "'n SQLSelectItem list" "'n TableFactor option" "'n Join list"
              "'n option" "'n list" "'n option"
and 'n TableFactor =
    Table SQLObjectName "SQLIdent option" "'n list" "'n list"
  | Derived "'n SQLQuery" "SQLIdent option"
and 'n Join =
    Join "'n TableFactor" JoinOperator "'n JoinConstant option"

subsection \<open>Rendering the leaves\<close>

fun SQLSetOperator_Eval :: "SQLSetOperator \<Rightarrow> string" where
  "SQLSetOperator_Eval UnionOperator = ''UNION''"
| "SQLSetOperator_Eval ExceptOperator = ''EXCEPT''"
| "SQLSetOperator_Eval IntersectOperator = ''INTERSECT''"

fun SQLSelectItem_Eval :: "('n \<Rightarrow> string) \<Rightarrow> 'n SQLSelectItem \<Rightarrow> string" where
  "SQLSelectItem_Eval ne (UnnamedExpression node) = ne node"
| "SQLSelectItem_Eval ne (ExpressionWithAlias expr alias) =
     ne expr @ '' AS '' @ SQLIdent_Eval alias"
| "SQLSelectItem_Eval ne (QualifiedWildcard pre) = SQLObjectName_Eval pre @ ''.*''"
| "SQLSelectItem_Eval ne Wildcard = ''*''"

fun JoinConstant_Prefix :: "'n JoinConstant \<Rightarrow> string" where
  "JoinConstant_Prefix (OnJoinConstant node) = ''''"
| "JoinConstant_Prefix (UsingConstant idents) = ''''"
| "JoinConstant_Prefix NaturalConstant = ''NATURAL ''"

text \<open>
  In \<^verbatim>\<open>UsingConstant.Suffix\<close> the loop copies each identifier into \<^verbatim>\<open>str\<close> with
  \<^verbatim>\<open>string(*i)\<close>, which leaves the text as it is.
\<close>

fun JoinConstant_Suffix :: "('n \<Rightarrow> string) \<Rightarrow> 'n JoinConstant \<Rightarrow> string" where
  "JoinConstant_Suffix ne (OnJoinConstant node) = '' ON '' @ ne node"
| "JoinConstant_Suffix ne (UsingConstant idents) =
     '' USING('' @ strings_Join (map (\<lambda>i. i) idents) '', '' @ '')''"
| "JoinConstant_Suffix ne NaturalConstant = ''''"

fun SQLOrderByExpr_Eval :: "('n \<Rightarrow> string) \<Rightarrow> 'n SQLOrderByExpr \<Rightarrow> string" where
  "SQLOrderByExpr_Eval ne (SQLOrderByExpr expr asc) =
     (case asc of
        None \<Rightarrow> ne expr
      | Some b \<Rightarrow> if b then ne expr @ '' ASC'' else ne expr @ '' DESC'')"

subsection \<open>Rendering queries, set expressions, selects, table factors and joins\<close>

text \<open>
  The two \<^verbatim>\<open>for ... range\<close> loops that call back into the renderer are the
  functions \<open>CTEs_loop\<close> (the loop of \<^verbatim>\<open>SQLQuery.Eval\<close>, which appends one
  \<^verbatim>\<open>"%s AS (%s)"\<close> to \<^verbatim>\<open>ctestrs\<close> for each CTE) and \<open>Joins_loop\<close> (the loop of
  \<^verbatim>\<open>SQLSelect.Eval\<close>, which appends each join's text to \<^verbatim>\<open>q\<close>). The first
  argument after \<open>ne\<close> is the value of the loop's variable so far.
\<close>

fun SQLQuery_Eval :: "('n \<Rightarrow> string) \<Rightarrow> 'n SQLQuery \<Rightarrow> string option"
and CTEs_loop :: "('n \<Rightarrow> string) \<Rightarrow> string list \<Rightarrow> 'n CTE list \<Rightarrow> string list option"
and SQLSetExpr_Eval :: "('n \<Rightarrow> string) \<Rightarrow> 'n SQLSetExpr \<Rightarrow> string option"
and SQLSelect_Eval :: "('n \<Rightarrow> string) \<Rightarrow> 'n SQLSelect \<Rightarrow> string option"
and Joins_loop :: "('n \<Rightarrow> string) \<Rightarrow> string \<Rightarrow> 'n Join list \<Rightarrow> string option"
and TableFactor_Eval :: "('n \<Rightarrow> string) \<Rightarrow> 'n TableFactor \<Rightarrow> string option"
and Join_Eval :: "('n \<Rightarrow> string) \<Rightarrow> 'n Join \<Rightarrow> string option"
where
  "SQLQuery_Eval ne (SQLQuery ctes body orderBy limit) =
     (case (let q = ''''
            in if length ctes \<noteq> 0
               then (let q = q @ ''WITH ''
                     in case CTEs_loop ne [] ctes of
                          None \<Rightarrow> None
                        | Some ctestrs \<Rightarrow> Some (q @ strings_Join ctestrs '', '' @ '' ''))
               else Some q) of
        None \<Rightarrow> None
      | Some q \<Rightarrow>
          (case SQLSetExpr_Eval ne body of
             None \<Rightarrow> None
           | Some b \<Rightarrow>
               (let q = q @ b;
                    q = (if length orderBy \<noteq> 0
                         then q @ '' ORDER BY '' @
                              commaSeparatedString (map (SQLOrderByExpr_Eval ne) orderBy)
                         else q);
                    q = (case limit of None \<Rightarrow> q | Some l \<Rightarrow> q @ '' LIMIT '' @ ne l)
                in Some q)))"
| "CTEs_loop ne ctestrs [] = Some ctestrs"
| "CTEs_loop ne ctestrs (CTE alias query # ctes) =
     (case SQLQuery_Eval ne query of
        None \<Rightarrow> None
      | Some s \<Rightarrow> CTEs_loop ne (ctestrs @ [SQLIdent_Eval alias @ '' AS ('' @ s @ '')'']) ctes)"
| "SQLSetExpr_Eval ne (SelectExpr sel) = SQLSelect_Eval ne sel"
| "SQLSetExpr_Eval ne (QueryExpr query) =
     (case SQLQuery_Eval ne query of None \<Rightarrow> None | Some s \<Rightarrow> Some (''('' @ s @ '')''))"
| "SQLSetExpr_Eval ne (SetOperationExpr op all left right) =
     (let allStr = (if all then '' ALL'' else '''')
      in case SQLSetExpr_Eval ne left of
           None \<Rightarrow> None
         | Some l \<Rightarrow>
             (case SQLSetExpr_Eval ne right of
                None \<Rightarrow> None
              | Some r \<Rightarrow> Some (l @ '' '' @ SQLSetOperator_Eval op @ allStr @ '' '' @ r)))"
| "SQLSelect_Eval ne (SQLSelect distinct' projection relation joins selection groupBy having) =
     (let q = ''SELECT '';
          q = (if distinct' then q @ ''DISTINCT '' else q);
          q = q @ commaSeparatedString (map (SQLSelectItem_Eval ne) projection)
      in case (case relation of
                 None \<Rightarrow> Some q
               | Some rel \<Rightarrow>
                   (case TableFactor_Eval ne rel of
                      None \<Rightarrow> None
                    | Some s \<Rightarrow> Some (q @ '' FROM '' @ s))) of
           None \<Rightarrow> None
         | Some q \<Rightarrow>
             (case Joins_loop ne q joins of
                None \<Rightarrow> None
              | Some q \<Rightarrow>
                  (let q = (case selection of
                              None \<Rightarrow> q
                            | Some e \<Rightarrow> q @ '' WHERE '' @ ne e);
                       q = (if length groupBy \<noteq> 0
                            then q @ '' GROUP BY '' @ commaSeparatedString (map ne groupBy)
                            else q);
                       q = (case having of
                              None \<Rightarrow> q
                            | Some e \<Rightarrow> q @ '' HAVING '' @ ne e)
                   in Some q)))"
| "Joins_loop ne q [] = Some q"
| "Joins_loop ne q (j # joins) =
     (case Join_Eval ne j of
        None \<Rightarrow> None
      | Some s \<Rightarrow> Joins_loop ne (q @ s) joins)"
| "TableFactor_Eval ne (Table name alias args withHints) =
     (let s = SQLObjectName_Eval name;
          s = (if length args \<noteq> 0
               then s @ ''('' @ commaSeparatedString (map ne args) @ '')''
               else s);
          s = (case alias of None \<Rightarrow> s | Some a \<Rightarrow> s @ '' AS '' @ SQLIdent_Eval a);
          s = (if length withHints \<noteq> 0
               then s @ '' WITH ('' @ commaSeparatedString (map ne withHints) @ '')''
               else s)
      in Some s)"
| "TableFactor_Eval ne (Derived subQuery alias) =
     (case SQLQuery_Eval ne subQuery of
        None \<Rightarrow> None
      | Some s \<Rightarrow>
          Some (case alias of None \<Rightarrow> s | Some a \<Rightarrow> s @ '' AS '' @ SQLIdent_Eval a))"
| "Join_Eval ne (Join relation op constant) =
     (if op = Inner then
        (case constant of
           None \<Rightarrow> None
         | Some c \<Rightarrow>
             (case TableFactor_Eval ne relation of
                None \<Rightarrow> None
              | Some r \<Rightarrow>
                  Some ('' '' @ JoinConstant_Prefix c @ ''JOIN '' @ r @ JoinConstant_Suffix ne c)))
      else if op = Cross then
        (case TableFactor_Eval ne relation of
           None \<Rightarrow> None
         | Some r \<Rightarrow> Some ('' CROSS JOIN'' @ r))
      else if op = Implicit then
        (case TableFactor_Eval ne relation of
           None \<Rightarrow> None
         | Some r \<Rightarrow> Some ('', '' @ r))
      else if op = LeftOuter then
        (case constant of
           None \<Rightarrow> None
         | Some c \<Rightarrow>
             (case TableFactor_Eval ne relation of
                None \<Rightarrow> None
              | Some r \<Rightarrow>
                  Some ('' '' @ JoinConstant_Prefix c @ ''LEFT JOIN '' @ r @
                        JoinConstant_Suffix ne c)))
      else if op = RightOuter then
        (case constant of
           None \<Rightarrow> None
         | Some c \<Rightarrow>
             (case TableFactor_Eval ne relation of
                None \<Rightarrow> None
              | Some r \<Rightarrow>
                  Some ('' '' @ JoinConstant_Prefix c @ ''RIGHT JOIN '' @ r @
                        JoinConstant_Suffix ne c)))
      else if op = FullOuter then
        (case constant of
           None \<Rightarrow> None
         | Some c \<Rightarrow>
             (case TableFactor_Eval ne relation of
                None \<Rightarrow> None
              | Some r \<Rightarrow>
                  Some ('' '' @ JoinConstant_Prefix c @ ''FULL JOIN '' @ r @
                        JoinConstant_Suffix ne c)))
      else Some '''')"

section \<open>Properties of the renderer\<close>

subsection \<open>The two loops in closed form\<close>

text \<open>
  The join loop appends the joins' texts to \<open>q\<close> in list order and fails as soon
  as one join fails; \<open>those\<close> collects the texts of a list of joins, or is
  \<open>None\<close> when one of them has none.
\<close>

lemma Joins_loop_those:
  "Joins_loop ne q joins =
     map_option (\<lambda>texts. q @ concat texts) (those (map (Join_Eval ne) joins))"
  by (induction joins arbitrary: q) (auto split: option.splits simp: map_option_case)

lemma CTEs_loop_those:
  "CTEs_loop ne ctestrs ctes =
     map_option (\<lambda>strs. ctestrs @ strs)
       (those (map (\<lambda>cte. case cte of CTE alias query \<Rightarrow>
                 map_option (\<lambda>s. SQLIdent_Eval alias @ '' AS ('' @ s @ '')'')
                   (SQLQuery_Eval ne query)) ctes))"
  by (induction ctes arbitrary: ctestrs)
     (auto split: option.splits CTE.splits simp: map_option_case)

subsection \<open>Select statements\<close>

text \<open>
  Claim C1. For every \<open>SQLSelect\<close>, \<open>Eval\<close> returns exactly: \<open>SELECT \<close>; then
  \<open>DISTINCT \<close> if and only if \<open>Distinct\<close> is set; then the projection items joined
  by comma and space; then \<open> FROM \<close> and the relation's text if and only if a
  relation is present; then the texts of the joins, in list order, with nothing
  between them; then \<open> WHERE \<close> and the predicate if and only if \<open>Selection\<close> is
  present; then \<open> GROUP BY \<close> and the grouping expressions joined by comma and
  space if and only if \<open>GroupBy\<close> is not empty; then \<open> HAVING \<close> and the predicate
  if and only if \<open>Having\<close> is present; and nothing before or after.

  The relation and the joins are rendered by \<open>TableFactor_Eval\<close> and
  \<open>Join_Eval\<close>; where one of them has no text (a nil constraint is consulted
  somewhere below it), \<open>Eval\<close> has none either, which is what the two \<open>bind\<close>s
  say.
\<close>

theorem SQLSelect_Eval_layout:
  "SQLSelect_Eval ne (SQLSelect distinct' projection relation joins selection groupBy having) =
     Option.bind
       (case relation of
          None \<Rightarrow> Some ''''
        | Some rel \<Rightarrow> map_option (\<lambda>r. '' FROM '' @ r) (TableFactor_Eval ne rel))
       (\<lambda>from_clause.
     Option.bind (those (map (Join_Eval ne) joins))
       (\<lambda>join_texts.
          Some (''SELECT ''
                @ (if distinct' then ''DISTINCT '' else '''')
                @ strings_Join (map (SQLSelectItem_Eval ne) projection) '', ''
                @ from_clause
                @ concat join_texts
                @ (case selection of None \<Rightarrow> '''' | Some e \<Rightarrow> '' WHERE '' @ ne e)
                @ (if groupBy = [] then ''''
                   else '' GROUP BY '' @ strings_Join (map ne groupBy) '', '')
                @ (case having of None \<Rightarrow> '''' | Some e \<Rightarrow> '' HAVING '' @ ne e))))"
  by (simp add: Joins_loop_those commaSeparatedString_def Let_def split: option.splits)

text \<open>
  The theorem at the tree of the case "join" of \<^verbatim>\<open>TestSQLSelect_Eval\<close> and at
  the tree of its case "having" with \<open>Distinct\<close> set, each expression node
  standing for its own text.
\<close>

theorem SQLSelect_Eval_layout_witness:
  "SQLSelect_Eval (\<lambda>n. n)
     (SQLSelect False [UnnamedExpression ''test'']
        (Some (Table (SQLObjectName [''test_table'']) None [] []))
        [Join (Table (SQLObjectName [''test_table2'']) None [] []) Inner (Some NaturalConstant)]
        None [] None)
   = Some ''SELECT test FROM test_table NATURAL JOIN test_table2''
   \<and> SQLSelect_Eval (\<lambda>n. n)
     (SQLSelect True [UnnamedExpression ''COUNT(customer_id)'', UnnamedExpression ''country'']
        (Some (Table (SQLObjectName [''customers'']) None [] []))
        []
        None [''country''] (Some ''COUNT(customer_id) > 3''))
   = Some (''SELECT DISTINCT COUNT(customer_id), country FROM customers'' @
           '' GROUP BY country HAVING COUNT(customer_id) > 3'')"
  using
    SQLSelect_Eval_layout [of "\<lambda>n. n" False "[UnnamedExpression ''test'']"
      "Some (Table (SQLObjectName [''test_table'']) None [] [])"
      "[Join (Table (SQLObjectName [''test_table2'']) None [] []) Inner (Some NaturalConstant)]"
      None "[]" None]
    SQLSelect_Eval_layout [of "\<lambda>n. n" True
      "[UnnamedExpression ''COUNT(customer_id)'', UnnamedExpression ''country'']"
      "Some (Table (SQLObjectName [''customers'']) None [] [])"
      "[]" None "[''country'']" "Some ''COUNT(customer_id) > 3''"]
  by (simp add: SQLObjectName_Eval_def SQLIdent_Eval_def Inner_def)



subsection \<open>Queries\<close>

text \<open>
  Claim C2. For every \<open>SQLQuery\<close>, \<open>Eval\<close> returns exactly: when \<open>CTEs\<close> is not
  empty, \<open>WITH \<close>, then the CTEs, each rendered as its alias, \<open> AS (\<close>, its
  query's text and \<open>)\<close>, joined by comma and space, then one space; then the
  body's text; then \<open> ORDER BY \<close> and the order-by expressions joined by comma
  and space if and only if \<open>OrderBy\<close> is not empty; then \<open> LIMIT \<close> and the limit
  expression if and only if \<open>Limit\<close> is present.

  Where the query of a CTE or the body has no text, \<open>Eval\<close> has none.
\<close>

theorem SQLQuery_Eval_layout:
  "SQLQuery_Eval ne (SQLQuery ctes body orderBy limit) =
     Option.bind
       (those (map (\<lambda>cte. case cte of CTE alias query \<Rightarrow>
                 map_option (\<lambda>s. SQLIdent_Eval alias @ '' AS ('' @ s @ '')'')
                   (SQLQuery_Eval ne query)) ctes))
       (\<lambda>cte_texts.
     Option.bind (SQLSetExpr_Eval ne body)
       (\<lambda>body_text.
          Some ((if ctes = [] then ''''
                 else ''WITH '' @ strings_Join cte_texts '', '' @ '' '')
                @ body_text
                @ (if orderBy = [] then ''''
                   else '' ORDER BY '' @
                        strings_Join (map (SQLOrderByExpr_Eval ne) orderBy) '', '')
                @ (case limit of None \<Rightarrow> '''' | Some l \<Rightarrow> '' LIMIT '' @ ne l))))"
  by (simp add: CTEs_loop_those commaSeparatedString_def Let_def split: option.splits)

text \<open>
  The theorem at a query with two CTEs, two order-by expressions and a limit.
\<close>

theorem SQLQuery_Eval_layout_witness:
  "SQLQuery_Eval (\<lambda>n. n)
     (SQLQuery
        [CTE ''r'' (SQLQuery [] (SelectExpr (SQLSelect False [Wildcard]
                      (Some (Table (SQLObjectName [''orders'']) None [] [])) [] None [] None))
                      [] None),
         CTE ''s'' (SQLQuery [] (SelectExpr (SQLSelect False [UnnamedExpression ''1'']
                      None [] None [] None)) [] None)]
        (SelectExpr (SQLSelect False [UnnamedExpression ''product'']
           (Some (Table (SQLObjectName [''r'']) None [] [])) [] None [] None))
        [SQLOrderByExpr ''product'' None, SQLOrderByExpr ''units'' (Some False)]
        (Some ''100''))
   = Some (''WITH r AS (SELECT * FROM orders), s AS (SELECT 1) '' @
           ''SELECT product FROM r ORDER BY product, units DESC LIMIT 100'')"
  using
    SQLQuery_Eval_layout [of "\<lambda>n. n"
      "[CTE ''r'' (SQLQuery [] (SelectExpr (SQLSelect False [Wildcard]
                      (Some (Table (SQLObjectName [''orders'']) None [] [])) [] None [] None))
                      [] None),
        CTE ''s'' (SQLQuery [] (SelectExpr (SQLSelect False [UnnamedExpression ''1'']
                      None [] None [] None)) [] None)]"
      "SelectExpr (SQLSelect False [UnnamedExpression ''product'']
           (Some (Table (SQLObjectName [''r'']) None [] [])) [] None [] None)"
      "[SQLOrderByExpr ''product'' None, SQLOrderByExpr ''units'' (Some False)]"
      "Some ''100''"]
  by (simp add: commaSeparatedString_def SQLObjectName_Eval_def SQLIdent_Eval_def)

text \<open>
  Claim C6. For every \<open>SQLQuery\<close> whose \<open>CTEs\<close> and \<open>OrderBy\<close> are empty and whose
  \<open>Limit\<close> is absent, \<open>Eval\<close> returns exactly what the body's \<open>Eval\<close> returns,
  with nothing added before or after.
\<close>

theorem SQLQuery_Eval_bare_body:
  "SQLQuery_Eval ne (SQLQuery [] body [] None) = SQLSetExpr_Eval ne body"
  by (simp split: option.splits)

text \<open>
  Claim C7. For every \<open>SQLOrderByExpr\<close>, \<open>Eval\<close> returns the expression's text
  alone when \<open>ASC\<close> is nil, the expression's text followed by \<open> ASC\<close> when \<open>ASC\<close>
  points to \<open>true\<close>, and the expression's text followed by \<open> DESC\<close> when it
  points to \<open>false\<close>. In the unset case the result is the expression's text and
  nothing else, so \<open>Eval\<close> puts no direction token there.
\<close>

theorem SQLOrderByExpr_Eval_direction:
  "SQLOrderByExpr_Eval ne (SQLOrderByExpr expr None) = ne expr
   \<and> SQLOrderByExpr_Eval ne (SQLOrderByExpr expr (Some True)) = ne expr @ '' ASC''
   \<and> SQLOrderByExpr_Eval ne (SQLOrderByExpr expr (Some False)) = ne expr @ '' DESC''"
  by simp

subsection \<open>Joins\<close>

text \<open>
  Claim C3. For every \<open>Join\<close>, \<open>Eval\<close> follows the table of operators. With a
  constraint \<open>c\<close>, \<open>Inner\<close>, \<open>LeftOuter\<close>, \<open>RightOuter\<close> and \<open>FullOuter\<close> render
  a space, the prefix of \<open>c\<close>, then \<open>JOIN \<close>, \<open>LEFT JOIN \<close>, \<open>RIGHT JOIN \<close> or
  \<open>FULL JOIN \<close>, the relation's text and the suffix of \<open>c\<close>. The prefix is
  \<open>NATURAL \<close> and the suffix empty for \<open>Natural\<close>; the prefix is empty and the
  suffix \<open> ON \<close> and the predicate for \<open>On\<close>; the prefix is empty and the suffix
  \<open> USING(\<close>, the columns joined by comma and space, and \<open>)\<close> for \<open>Using\<close>.
  \<open>Implicit\<close> renders \<open>, \<close> and the relation's text; \<open>Cross\<close> renders
  \<open> CROSS JOIN\<close> and the relation's text with no space between them. The last
  two hold whatever is in the \<open>Constant\<close> field (\<open>k\<close>), nil included.
\<close>

theorem Join_Eval_dispatch:
  "JoinConstant_Prefix (NaturalConstant :: 'n JoinConstant) = ''NATURAL ''
   \<and> JoinConstant_Suffix ne NaturalConstant = ''''
   \<and> JoinConstant_Prefix (OnJoinConstant e) = ''''
   \<and> JoinConstant_Suffix ne (OnJoinConstant e) = '' ON '' @ ne e
   \<and> JoinConstant_Prefix (UsingConstant cols :: 'n JoinConstant) = ''''
   \<and> JoinConstant_Suffix ne (UsingConstant cols) =
         '' USING('' @ strings_Join cols '', '' @ '')''
   \<and> Join_Eval ne (Join rel Inner (Some c)) =
         map_option (\<lambda>r. '' '' @ JoinConstant_Prefix c @ ''JOIN '' @ r @
                          JoinConstant_Suffix ne c) (TableFactor_Eval ne rel)
   \<and> Join_Eval ne (Join rel LeftOuter (Some c)) =
         map_option (\<lambda>r. '' '' @ JoinConstant_Prefix c @ ''LEFT JOIN '' @ r @
                          JoinConstant_Suffix ne c) (TableFactor_Eval ne rel)
   \<and> Join_Eval ne (Join rel RightOuter (Some c)) =
         map_option (\<lambda>r. '' '' @ JoinConstant_Prefix c @ ''RIGHT JOIN '' @ r @
                          JoinConstant_Suffix ne c) (TableFactor_Eval ne rel)
   \<and> Join_Eval ne (Join rel FullOuter (Some c)) =
         map_option (\<lambda>r. '' '' @ JoinConstant_Prefix c @ ''FULL JOIN '' @ r @
                          JoinConstant_Suffix ne c) (TableFactor_Eval ne rel)
   \<and> Join_Eval ne (Join rel Implicit k) =
         map_option (\<lambda>r. '', '' @ r) (TableFactor_Eval ne rel)
   \<and> Join_Eval ne (Join rel Cross k) =
         map_option (\<lambda>r. '' CROSS JOIN'' @ r) (TableFactor_Eval ne rel)"
  by (simp add: Inner_def LeftOuter_def RightOuter_def FullOuter_def Implicit_def Cross_def
                map_option_case
           split: option.splits)

text \<open>
  The theorem at a table \<open>t\<close> and each kind of constraint.
\<close>

theorem Join_Eval_dispatch_witness:
  "Join_Eval (\<lambda>n. n) (Join (Table (SQLObjectName [''t'']) None [] []) Inner
                          (Some NaturalConstant))
   = Some '' NATURAL JOIN t''
   \<and> Join_Eval (\<lambda>n. n) (Join (Table (SQLObjectName [''t'']) None [] []) RightOuter
                            (Some (OnJoinConstant ''a = b'')))
   = Some '' RIGHT JOIN t ON a = b''
   \<and> Join_Eval (\<lambda>n. n) (Join (Table (SQLObjectName [''t'']) None [] []) FullOuter
                            (Some (UsingConstant [''a'', ''b''])))
   = Some '' FULL JOIN t USING(a, b)''
   \<and> Join_Eval (\<lambda>n. n) (Join (Table (SQLObjectName [''t'']) None [] []) Cross None)
   = Some '' CROSS JOINt''"
  using
    Join_Eval_dispatch [of "\<lambda>n. n" "''a = b''" "[''a'', ''b'']"
      "Table (SQLObjectName [''t'']) None [] []" "NaturalConstant" None]
    Join_Eval_dispatch [of "\<lambda>n. n" "''a = b''" "[''a'', ''b'']"
      "Table (SQLObjectName [''t'']) None [] []" "OnJoinConstant ''a = b''" None]
    Join_Eval_dispatch [of "\<lambda>n. n" "''a = b''" "[''a'', ''b'']"
      "Table (SQLObjectName [''t'']) None [] []" "UsingConstant [''a'', ''b'']" None]
  by (simp add: SQLObjectName_Eval_def SQLIdent_Eval_def)

text \<open>
  Claim C8. For every two joins whose operator is \<open>Cross\<close> or \<open>Implicit\<close> and
  that have the same relation and operator, \<open>Eval\<close> returns the same result
  whatever their \<open>Constant\<close> fields hold: the constraint is never consulted for
  these two operators.
\<close>

theorem Join_Eval_ignores_constant:
  assumes "op = Cross \<or> op = Implicit"
  shows "Join_Eval ne (Join rel op c1) = Join_Eval ne (Join rel op c2)"
  using assms by (auto simp: Inner_def Cross_def Implicit_def)

theorem Join_Eval_ignores_constant_witness:
  "(Cross = Cross \<or> Cross = Implicit)
   \<and> Join_Eval (\<lambda>n. n) (Join (Table (SQLObjectName [''t'']) None [] []) Cross None)
     = Join_Eval (\<lambda>n. n) (Join (Table (SQLObjectName [''t'']) None [] []) Cross
                             (Some (OnJoinConstant ''a = b'')))
   \<and> Join_Eval (\<lambda>n. n) (Join (Table (SQLObjectName [''t'']) None [] []) Cross
                            (Some (OnJoinConstant ''a = b'')))
     = Some '' CROSS JOINt''"
proof -
  have h: "Cross = Cross \<or> Cross = Implicit" by simp
  show ?thesis
    using h Join_Eval_ignores_constant [OF h, of "\<lambda>n. n"
        "Table (SQLObjectName [''t'']) None [] []" None "Some (OnJoinConstant ''a = b'')"]
    by (simp add: SQLObjectName_Eval_def SQLIdent_Eval_def Inner_def Cross_def)
qed

text \<open>
  Claim C9. For every \<open>Join\<close> whose \<open>Op\<close> is none of the six constants \<open>Inner\<close>,
  \<open>LeftOuter\<close>, \<open>RightOuter\<close>, \<open>FullOuter\<close>, \<open>Implicit\<close> and \<open>Cross\<close>, \<open>Eval\<close>
  returns the empty string and does not fail, whatever the relation and the
  \<open>Constant\<close> field (nil included).
\<close>

theorem Join_Eval_unknown_operator:
  assumes "op \<notin> {Inner, LeftOuter, RightOuter, FullOuter, Implicit, Cross}"
  shows "Join_Eval ne (Join rel op c) = Some ''''"
  using assms by simp

theorem Join_Eval_unknown_operator_witness:
  "(6 :: JoinOperator) \<notin> {Inner, LeftOuter, RightOuter, FullOuter, Implicit, Cross}
   \<and> Join_Eval (\<lambda>n. n) (Join (Table (SQLObjectName [''t'']) None [] []) 6 None) = Some ''''
   \<and> (- 1 :: JoinOperator) \<notin> {Inner, LeftOuter, RightOuter, FullOuter, Implicit, Cross}
   \<and> Join_Eval (\<lambda>n. n) (Join (Table (SQLObjectName [''t'']) None [] []) (- 1)
                            (Some NaturalConstant)) = Some ''''"
proof -
  have h6: "(6 :: JoinOperator) \<notin> {Inner, LeftOuter, RightOuter, FullOuter, Implicit, Cross}"
    by (simp add: Inner_def LeftOuter_def RightOuter_def FullOuter_def Implicit_def Cross_def)
  have hm: "(- 1 :: JoinOperator) \<notin> {Inner, LeftOuter, RightOuter, FullOuter, Implicit, Cross}"
    by (simp add: Inner_def LeftOuter_def RightOuter_def FullOuter_def Implicit_def Cross_def)
  show ?thesis
    using h6 hm
      Join_Eval_unknown_operator [OF h6, of "\<lambda>n. n"
        "Table (SQLObjectName [''t'']) None [] []" None]
      Join_Eval_unknown_operator [OF hm, of "\<lambda>n. n"
        "Table (SQLObjectName [''t'']) None [] []" "Some NaturalConstant"]
    by simp
qed

subsection \<open>Set operations\<close>

text \<open>
  Occurrences of a text inside two texts put together with a separator: a text
  that does not contain the separator character lies in one of the two parts.
\<close>

lemma prefix_without_head:
  "prefix xs (c # b) \<Longrightarrow> c \<notin> set xs \<Longrightarrow> xs = []"
  by (cases xs) auto

lemma sublist_across_separator:
  assumes "c \<notin> set xs"
  shows "sublist xs (a @ c # b) \<longleftrightarrow> sublist xs a \<or> sublist xs b"
proof
  assume "sublist xs (a @ c # b)"
  then consider "sublist xs a" | "sublist xs (c # b)"
    | xs1 xs2 where "xs = xs1 @ xs2" "suffix xs1 a" "prefix xs2 (c # b)"
    unfolding sublist_append by blast
  then show "sublist xs a \<or> sublist xs b"
  proof cases
    case 1
    then show ?thesis by simp
  next
    case 2
    then have "prefix xs (c # b) \<or> sublist xs b" by (simp add: sublist_Cons_right)
    then show ?thesis using assms prefix_without_head by fastforce
  next
    case 3
    from 3(1) assms have "c \<notin> set xs2" by simp
    with 3(3) have "xs2 = []" by (rule prefix_without_head)
    with 3(1,2) show ?thesis by auto
  qed
next
  assume "sublist xs a \<or> sublist xs b"
  then show "sublist xs (a @ c # b)"
    by (auto simp: sublist_append sublist_Cons_right)
qed

lemma no_ALL_in_operator: "\<not> sublist ''ALL'' (SQLSetOperator_Eval op)"
  by (cases op) (simp_all add: sublist_Cons_right)

lemma SetOperationExpr_Eval_Some:
  assumes "SQLSetExpr_Eval ne left = Some l" and "SQLSetExpr_Eval ne right = Some r"
  shows "SQLSetExpr_Eval ne (SetOperationExpr op all left right) =
           Some (l @ '' '' @ SQLSetOperator_Eval op @ (if all then '' ALL'' else '''') @ '' '' @ r)"
  using assms by simp

text \<open>
  Claim C4, as stated: for every \<open>SetOperationExpr\<close> with \<open>All = false\<close> the
  output is the left operand's text, a space, the operator, a space and the
  right operand's text, and \<open>ALL\<close> occurs nowhere in the output. The second half
  fails where an operand's own text contains \<open>ALL\<close>: the left operand below is
  itself a set operation with \<open>All = true\<close>.
\<close>

theorem SetOperationExpr_no_ALL_counterexample:
  "SQLSetExpr_Eval (id :: string \<Rightarrow> string)
     (SetOperationExpr UnionOperator False
        (SetOperationExpr UnionOperator True
           (SelectExpr (SQLSelect False [Wildcard] None [] None [] None))
           (SelectExpr (SQLSelect False [Wildcard] None [] None [] None)))
        (SelectExpr (SQLSelect False [Wildcard] None [] None [] None)))
   = Some ''SELECT * UNION ALL SELECT * UNION SELECT *''
   \<and> sublist ''ALL'' ''SELECT * UNION ALL SELECT * UNION SELECT *''"
  by (simp add: commaSeparatedString_def sublist_Cons_right)

text \<open>
  Claim C4, amended. For every \<open>SetOperationExpr\<close> with \<open>All = false\<close> whose
  operands render as \<open>l\<close> and \<open>r\<close>, the output is \<open>l\<close>, one space, the operator
  token, exactly one space and \<open>r\<close>; and \<open>ALL\<close> occurs in the output only where
  it occurs in \<open>l\<close> or in \<open>r\<close>: the operator and the separators contribute none.
\<close>

theorem SetOperationExpr_Eval_without_ALL:
  assumes "SQLSetExpr_Eval ne left = Some l" and "SQLSetExpr_Eval ne right = Some r"
  shows "SQLSetExpr_Eval ne (SetOperationExpr op False left right) =
           Some (l @ '' '' @ SQLSetOperator_Eval op @ '' '' @ r)
         \<and> (sublist ''ALL'' (l @ '' '' @ SQLSetOperator_Eval op @ '' '' @ r) \<longleftrightarrow>
              sublist ''ALL'' l \<or> sublist ''ALL'' r)"
proof
  show "SQLSetExpr_Eval ne (SetOperationExpr op False left right) =
          Some (l @ '' '' @ SQLSetOperator_Eval op @ '' '' @ r)"
    using SetOperationExpr_Eval_Some [OF assms, of op False] by simp
next
  show "sublist ''ALL'' (l @ '' '' @ SQLSetOperator_Eval op @ '' '' @ r) \<longleftrightarrow>
          sublist ''ALL'' l \<or> sublist ''ALL'' r"
    by (simp add: sublist_across_separator no_ALL_in_operator)
qed

theorem SetOperationExpr_Eval_without_ALL_witness:
  "SQLSetExpr_Eval (\<lambda>n. n) (SelectExpr (SQLSelect False [UnnamedExpression ''a'']
                                None [] None [] None)) = Some ''SELECT a''
   \<and> SQLSetExpr_Eval (\<lambda>n. n) (SelectExpr (SQLSelect False [UnnamedExpression ''b'']
                                  None [] None [] None)) = Some ''SELECT b''
   \<and> SQLSetExpr_Eval (\<lambda>n. n)
       (SetOperationExpr ExceptOperator False
          (SelectExpr (SQLSelect False [UnnamedExpression ''a''] None [] None [] None))
          (SelectExpr (SQLSelect False [UnnamedExpression ''b''] None [] None [] None)))
     = Some ''SELECT a EXCEPT SELECT b''
   \<and> \<not> sublist ''ALL'' ''SELECT a EXCEPT SELECT b''"
proof -
  have hl: "SQLSetExpr_Eval (\<lambda>n. n) (SelectExpr (SQLSelect False [UnnamedExpression ''a'']
              None [] None [] None)) = Some ''SELECT a''"
    by (simp add: commaSeparatedString_def)
  have hr: "SQLSetExpr_Eval (\<lambda>n. n) (SelectExpr (SQLSelect False [UnnamedExpression ''b'']
              None [] None [] None)) = Some ''SELECT b''"
    by (simp add: commaSeparatedString_def)
  have no: "\<not> sublist ''ALL'' ''SELECT a''" "\<not> sublist ''ALL'' ''SELECT b''"
    by (simp_all add: sublist_Cons_right)
  show ?thesis
    using hl hr no SetOperationExpr_Eval_without_ALL [OF hl hr, of ExceptOperator]
    by simp
qed

text \<open>
  Claim C5. For every \<open>SetOperationExpr\<close> with \<open>All = true\<close>, \<open>Eval\<close> renders the
  left operand's text, one space, the operator token, one space, \<open>ALL\<close>, one
  space and the right operand's text: \<open>UNION ALL\<close>, never \<open>UNION  ALL\<close>. The
  operator token is \<open>UNION\<close>, \<open>EXCEPT\<close> or \<open>INTERSECT\<close> and so brings no space
  of its own. Where an operand has no text, \<open>Eval\<close> has none.
\<close>

theorem SetOperationExpr_Eval_with_ALL:
  "SQLSetExpr_Eval ne (SetOperationExpr op True left right) =
     Option.bind (SQLSetExpr_Eval ne left)
       (\<lambda>l. map_option (\<lambda>r. l @ '' '' @ SQLSetOperator_Eval op @ '' ALL '' @ r)
              (SQLSetExpr_Eval ne right))
   \<and> SQLSetOperator_Eval op \<in> {''UNION'', ''EXCEPT'', ''INTERSECT''}"
  by (cases op) (simp_all add: map_option_case split: option.splits)

theorem SetOperationExpr_Eval_with_ALL_witness:
  "SQLSetExpr_Eval (\<lambda>n. n)
     (SetOperationExpr UnionOperator True
        (SelectExpr (SQLSelect False [UnnamedExpression ''a''] None [] None [] None))
        (QueryExpr (SQLQuery [] (SelectExpr (SQLSelect False [UnnamedExpression ''b'']
                                   None [] None [] None)) [] None)))
   = Some ''SELECT a UNION ALL (SELECT b)''"
  using
    SetOperationExpr_Eval_with_ALL [of "\<lambda>n. n" UnionOperator
      "SelectExpr (SQLSelect False [UnnamedExpression ''a''] None [] None [] None)"
      "QueryExpr (SQLQuery [] (SelectExpr (SQLSelect False [UnnamedExpression ''b'']
                                   None [] None [] None)) [] None)"]
  by (simp add: commaSeparatedString_def)

end
